theory Spec2Isabelle
  imports Complex_Main "HOL-Library.Sublist"
begin

text \<open>
  A shallow embedding of the on-demand scraping service: the validation of a request,
  the stages of a job on the container engine and the request handler of \<open>app.mjs\<close>;
  and, under names ending in \<open>_alt\<close>, the functions of the repository's second copy of
  the service (the one that logs through \<open>pino\<close>) where they behave differently.
\<close>

section \<open>JavaScript values\<close>

text \<open>
  The request body, the fields of an error object and the result handed to the response
  are JavaScript values. A number is the rational it denotes (zero is the only falsy
  one among those a JSON text can produce); an object is the list of its own fields.
\<close>

datatype jsvalue =
    JUndefined
  | JNull
  | JBool bool
  | JNum rat
  | JStr string
  | JArr "jsvalue list"
  | JObj "(string \<times> jsvalue) list"

text \<open>An error object: its \<open>message\<close>, and the \<open>statusCode\<close> and \<open>json\<close> fields
  that the container client sets on a failed call (\<open>JUndefined\<close> when absent).\<close>

datatype js_error = JsError (message: string) (statusCode: jsvalue) (json: jsvalue)

definition TypeError :: "string \<Rightarrow> js_error" where
  "TypeError msg = JsError msg JUndefined JUndefined"

definition Error :: "string \<Rightarrow> js_error" where
  "Error msg = JsError msg JUndefined JUndefined"

text \<open>Truthiness, as tested by \<open>!x\<close>, \<open>if (x)\<close> and \<open>x && y\<close>.\<close>

fun truthy :: "jsvalue \<Rightarrow> bool" where
  "truthy JUndefined = False"
| "truthy JNull = False"
| "truthy (JBool b) = b"
| "truthy (JNum r) = (r \<noteq> 0)"
| "truthy (JStr s) = (s \<noteq> [])"
| "truthy (JArr xs) = True"
| "truthy (JObj kvs) = True"

text \<open>
  Reading a field \<open>v[k]\<close> or \<open>v.k\<close> whose name no built-in prototype defines (the source
  reads \<open>programDirectory\<close> and \<open>message\<close> only): a type error on \<open>undefined\<close> and
  \<open>null\<close>, the own field of an object, and \<open>undefined\<close> everywhere else.
\<close>

fun get_field :: "jsvalue \<Rightarrow> string \<Rightarrow> js_error + jsvalue" where
  "get_field JUndefined k = Inl (TypeError (''Cannot read properties of undefined (reading '' @ k @ '')''))"
| "get_field JNull k = Inl (TypeError (''Cannot read properties of null (reading '' @ k @ '')''))"
| "get_field (JObj kvs) k = Inr (case map_of kvs k of None \<Rightarrow> JUndefined | Some v \<Rightarrow> v)"
| "get_field v k = Inr JUndefined"

text \<open>\<open>t.includes(s)\<close> on a string: \<open>s\<close> occurs in \<open>t\<close>.\<close>

fun includes_str :: "string \<Rightarrow> string \<Rightarrow> bool" where
  "includes_str [] s = (s = [])"
| "includes_str (c # cs) s = (prefix s (c # cs) \<or> includes_str cs s)"

text \<open>
  \<open>m.includes(s)\<close> for a value \<open>m\<close>: the substring test of a string, the membership
  test of an array, and a type error on every value that has no such method.
\<close>

fun includes_js :: "jsvalue \<Rightarrow> string \<Rightarrow> js_error + bool" where
  "includes_js (JStr t) s = Inr (includes_str t s)"
| "includes_js (JArr xs) s = Inr (JStr s \<in> set xs)"
| "includes_js JUndefined s = Inl (TypeError ''Cannot read properties of undefined (reading includes)'')"
| "includes_js JNull s = Inl (TypeError ''Cannot read properties of null (reading includes)'')"
| "includes_js v s = Inl (TypeError ''err.json.message.includes is not a function'')"

section \<open>Paths\<close>

text \<open>
  \<open>path.resolve(base, p)\<close> of Node on a POSIX host, for an absolute \<open>base\<close> (the
  constant \<open>BASE_PATH_FOR_SCRIPTS\<close> is itself a result of \<open>path.resolve\<close>): a type
  error unless \<open>p\<close> is a string; an empty \<open>p\<close> is skipped; an absolute \<open>p\<close> replaces the
  base; the segments are then normalised (\<open>.\<close> and empty segments dropped, \<open>..\<close>
  dropping the segment before it) and joined after a leading slash.
\<close>

fun split_slash :: "string \<Rightarrow> string \<Rightarrow> string list" where
  "split_slash [] cur = [cur]"
| "split_slash (c # cs) cur =
     (if c = CHR ''/'' then cur # split_slash cs [] else split_slash cs (cur @ [c]))"

fun normalize_segments :: "string list \<Rightarrow> string list \<Rightarrow> string list" where
  "normalize_segments [] kept = kept"
| "normalize_segments (seg # segs) kept =
     (if seg = [] \<or> seg = ''.'' then normalize_segments segs kept
      else if seg = ''..'' then normalize_segments segs (butlast kept)
      else normalize_segments segs (kept @ [seg]))"

fun join_slash :: "string list \<Rightarrow> string" where
  "join_slash [] = []"
| "join_slash [seg] = seg"
| "join_slash (seg # segs) = seg @ ''/'' @ join_slash segs"

fun path_resolve :: "string \<Rightarrow> jsvalue \<Rightarrow> js_error + string" where
  "path_resolve base (JStr p) =
     Inr (''/'' @ join_slash (normalize_segments
       (split_slash (if p = [] then base
                     else if hd p = CHR ''/'' then p
                     else base @ ''/'' @ p) []) []))"
| "path_resolve base v =
     Inl (TypeError ''The paths[1] argument must be of type string'')"

text \<open>
  \<open>fs.realpathSync\<close> is the file system's answer: the canonical path of an existing
  entry, symbolic links followed, or an exception. The file system is a parameter.
\<close>

type_synonym realpath = "string \<Rightarrow> js_error + string"

section \<open>Request validation\<close>

text \<open>The \<open>try\<close> block of \<open>isValidPartialPath\<close>; \<open>startsWith\<close> is \<open>prefix\<close>.\<close>

definition isValidPartialPath_try :: "string \<Rightarrow> realpath \<Rightarrow> jsvalue \<Rightarrow> js_error + bool" where
  "isValidPartialPath_try BASE_PATH_FOR_SCRIPTS realpathSync userInputPath =
     (case realpathSync BASE_PATH_FOR_SCRIPTS of
        Inl err \<Rightarrow> Inl err
      | Inr realBaseDir \<Rightarrow>
          (case path_resolve BASE_PATH_FOR_SCRIPTS userInputPath of
             Inl err \<Rightarrow> Inl err
           | Inr resolved \<Rightarrow>
               (case realpathSync resolved of
                  Inl err \<Rightarrow> Inl err
                | Inr realResolvedPath \<Rightarrow> Inr (prefix realBaseDir realResolvedPath))))"

text \<open>\<open>catch (err) { return false; }\<close> around it.\<close>

definition isValidPartialPath :: "string \<Rightarrow> realpath \<Rightarrow> jsvalue \<Rightarrow> bool" where
  "isValidPartialPath BASE_PATH_FOR_SCRIPTS realpathSync userInputPath =
     (case isValidPartialPath_try BASE_PATH_FOR_SCRIPTS realpathSync userInputPath of
        Inl err \<Rightarrow> False
      | Inr b \<Rightarrow> b)"

text \<open>
  The result \<open>{isValid: !error, error}\<close>: \<open>error\<close> is \<open>None\<close> while the variable is
  still \<open>undefined\<close>, and \<open>!error\<close> holds of \<open>undefined\<close> and of the empty string.
\<close>

record validation_result =
  isValid :: bool
  error :: "string option"

definition make_result :: "string option \<Rightarrow> validation_result" where
  "make_result err =
     \<lparr>isValid = (case err of None \<Rightarrow> True | Some s \<Rightarrow> s = []), error = err\<rparr>"

definition requiredFields :: "string list" where
  "requiredFields = [''programDirectory'']"

text \<open>The loop over the required fields: the first falsy one sets the error and leaves
  the labelled block; reading a field of \<open>undefined\<close> or \<open>null\<close> throws.\<close>

fun check_required :: "jsvalue \<Rightarrow> string list \<Rightarrow> js_error + string option" where
  "check_required params [] = Inr None"
| "check_required params (field # others) =
     (case get_field params field of
        Inl err \<Rightarrow> Inl err
      | Inr v \<Rightarrow>
          if \<not> truthy v then Inr (Some (''Error: '' @ field @ '' is required''))
          else check_required params others)"

definition invalid_directory_message :: string where
  "invalid_directory_message =
     ''Error: Invalid program directory, what are you trying to do Mr. Hacker?''"

definition validateParams :: "string \<Rightarrow> realpath \<Rightarrow> jsvalue \<Rightarrow> js_error + validation_result" where
  "validateParams BASE_PATH_FOR_SCRIPTS realpathSync params =
     (case check_required params requiredFields of
        Inl err \<Rightarrow> Inl err
      | Inr (Some e) \<Rightarrow> Inr (make_result (Some e))
      | Inr None \<Rightarrow>
          (case get_field params ''programDirectory'' of
             Inl err \<Rightarrow> Inl err
           | Inr dir \<Rightarrow>
               if \<not> isValidPartialPath BASE_PATH_FOR_SCRIPTS realpathSync dir
               then Inr (make_result (Some invalid_directory_message))
               else Inr (make_result None)))"

section \<open>The container engine\<close>

text \<open>
  An asynchronous call settles with a value, settles with an exception, or never
  settles: \<open>Pending\<close> is a promise that nothing resolves or rejects.
\<close>

datatype 'a outcome = Returned 'a | Thrown js_error | Pending

text \<open>The events of an attached output channel, in the order they are emitted.\<close>

datatype stream_event = Data string | End | StreamError js_error

text \<open>
  What \<open>docker.pull\<close> with a callback does: the call itself fails
  (\<open>PullRejected\<close>), the callback receives an error (\<open>PullCallbackError\<close>), the
  progress stream finishes and \<open>onFinished\<close> receives an error or \<open>null\<close>
  (\<open>PullFinished\<close>), or nothing is ever called back (\<open>PullSilent\<close>).
\<close>

datatype pull_reply =
    PullRejected js_error
  | PullCallbackError js_error
  | PullFinished "js_error option"
  | PullSilent

text \<open>
  The engine is a parameter: for the \<open>n\<close>-th run of a job it says how each call on
  that run's container settles, and how the pull that follows the run goes. The handle
  of the container of run \<open>n\<close> is \<open>n\<close>.
\<close>

record container_script =
  create_reply :: "unit outcome"
  start_reply :: "unit outcome"
  attach_stdout_reply :: "stream_event list outcome"
  attach_stderr_reply :: "string list outcome"
  wait_reply :: "int outcome"
  pull_reply :: pull_reply

type_synonym engine = "nat \<Rightarrow> container_script"

text \<open>The argument of \<open>docker.createContainer\<close>; a bind is the interpolated value and
  the literal text after it.\<close>

record container_options =
  Image :: string
  Cmd :: "jsvalue list"
  Binds :: "(jsvalue \<times> string) list"
  AutoRemove :: bool
  InitProcess :: bool
  CapAdd :: "string list"

datatype engine_call =
    CreateContainer container_options
  | StartContainer nat
  | Attach nat bool bool
  | WaitContainer nat
  | PullImage string

text \<open>What a job leaves behind: the calls it made on the engine, in order, and the text
  piped to the host's standard error.\<close>

record world =
  calls :: "engine_call list"
  host_stderr :: string

definition call :: "engine_call \<Rightarrow> world \<Rightarrow> world" where
  "call c w = w\<lparr>calls := calls w @ [c]\<rparr>"

text \<open>\<open>const x = await m; rest\<close>: the rest runs when \<open>m\<close> returns.\<close>

definition await :: "(world \<Rightarrow> 'a outcome \<times> world) \<Rightarrow> ('a \<Rightarrow> world \<Rightarrow> 'b outcome \<times> world)
    \<Rightarrow> world \<Rightarrow> 'b outcome \<times> world" where
  "await m rest w =
     (case m w of
        (Returned a, w') \<Rightarrow> rest a w'
      | (Thrown err, w') \<Rightarrow> (Thrown err, w')
      | (Pending, w') \<Rightarrow> (Pending, w'))"

section \<open>The stages of a job\<close>

text \<open>
  Writing to the console or to the logger, and \<open>publishFeedback\<close>, which builds an
  object and drops it, change nothing that a caller or the engine sees; they are left
  out. In the second copy \<open>createDockerContainer\<close> catches, logs and throws again, and
  \<open>waitForContainerToFinish\<close> tests \<open>!== 0\<close>: both settle as in \<open>app.mjs\<close>, so one
  definition of each serves the two copies.
\<close>

record job_config =
  bashStartUpCmd :: string
  programDirectory :: jsvalue

text \<open>The object \<open>{bashStartUpCmd, programDirectory}\<close> as the value that the retry
  passes back to \<open>runDockerCommand\<close>.\<close>

definition job_config_object :: "job_config \<Rightarrow> jsvalue" where
  "job_config_object jobConfig =
     JObj [(''bashStartUpCmd'', JStr (bashStartUpCmd jobConfig)),
           (''programDirectory'', programDirectory jobConfig)]"

definition puppeteer_image :: string where
  "puppeteer_image = ''ghcr.io/puppeteer/puppeteer:22.10.0''"

definition createDockerContainer :: "engine \<Rightarrow> nat \<Rightarrow> job_config \<Rightarrow> world \<Rightarrow> nat outcome \<times> world" where
  "createDockerContainer docker n jobConfig w =
     ((case create_reply (docker n) of
         Returned u \<Rightarrow> Returned n
       | Thrown err \<Rightarrow> Thrown err
       | Pending \<Rightarrow> Pending),
      call (CreateContainer
        \<lparr>Image = puppeteer_image,
         Cmd = [JStr ''bash'', JStr ''-c'', JStr (bashStartUpCmd jobConfig)],
         Binds = [(programDirectory jobConfig, '':/home/pptruser/app:ro'')],
         AutoRemove = True,
         InitProcess = True,
         CapAdd = [''SYS_ADMIN'']\<rparr>) w)"

definition startDockerContainer :: "engine \<Rightarrow> nat \<Rightarrow> world \<Rightarrow> unit outcome \<times> world" where
  "startDockerContainer docker container w =
     (start_reply (docker container), call (StartContainer container) w)"

text \<open>
  \<open>Promise.all\<close> of the two attach calls: both are issued; it rejects as soon as one
  rejects (with the first argument's error when both do) and returns when both return.
\<close>

fun promise_all2 :: "'a outcome \<Rightarrow> 'b outcome \<Rightarrow> ('a \<times> 'b) outcome" where
  "promise_all2 (Thrown err) q = Thrown err"
| "promise_all2 p (Thrown err) = Thrown err"
| "promise_all2 (Returned a) (Returned b) = Returned (a, b)"
| "promise_all2 p q = Pending"

text \<open>
  The promise \<open>collectStdout\<close>: \<open>data\<close> appends the chunk's text, \<open>end\<close> resolves with
  what was accumulated, \<open>error\<close> rejects; a settled promise ignores later events, and
  a channel that emits neither \<open>end\<close> nor \<open>error\<close> leaves it pending.
\<close>

fun collectStdout :: "stream_event list \<Rightarrow> string \<Rightarrow> jsvalue outcome" where
  "collectStdout [] stdoutData = Pending"
| "collectStdout (Data d # events) stdoutData = collectStdout events (stdoutData @ d)"
| "collectStdout (End # events) stdoutData = Returned (JStr stdoutData)"
| "collectStdout (StreamError err # events) stdoutData = Thrown err"

text \<open>
  \<open>captureContainerResultFromLogs\<close> of \<open>app.mjs\<close>. The \<open>catch\<close> covers the awaited
  \<open>Promise.all\<close> only (the promise of \<open>collectStdout\<close> is returned, not awaited); it
  logs the error, and the function then returns \<open>undefined\<close>.
\<close>

definition captureContainerResultFromLogs :: "engine \<Rightarrow> nat \<Rightarrow> world \<Rightarrow> jsvalue outcome \<times> world" where
  "captureContainerResultFromLogs docker container w =
     (let w1 = call (Attach container False True) (call (Attach container True False) w) in
      case promise_all2 (attach_stdout_reply (docker container))
                        (attach_stderr_reply (docker container)) of
        Returned (stdoutStream, stderrStream) \<Rightarrow>
          (collectStdout stdoutStream [],
           w1\<lparr>host_stderr := host_stderr w1 @ concat stderrStream\<rparr>)
      | Thrown err \<Rightarrow> (Returned JUndefined, w1)
      | Pending \<Rightarrow> (Pending, w1))"

text \<open>The same function in the second copy of the service: its \<open>catch\<close> logs the error
  and throws it again.\<close>

definition captureContainerResultFromLogs_alt :: "engine \<Rightarrow> nat \<Rightarrow> world \<Rightarrow> jsvalue outcome \<times> world" where
  "captureContainerResultFromLogs_alt docker container w =
     (let w1 = call (Attach container False True) (call (Attach container True False) w) in
      case promise_all2 (attach_stdout_reply (docker container))
                        (attach_stderr_reply (docker container)) of
        Returned (stdoutStream, stderrStream) \<Rightarrow>
          (collectStdout stdoutStream [],
           w1\<lparr>host_stderr := host_stderr w1 @ concat stderrStream\<rparr>)
      | Thrown err \<Rightarrow> (Thrown err, w1)
      | Pending \<Rightarrow> (Pending, w1))"

text \<open>The decimal text of an exit code, as a template literal prints an integer.\<close>

definition digit_char :: "nat \<Rightarrow> char" where
  "digit_char d = ''0123456789'' ! d"

fun show_nat :: "nat \<Rightarrow> string" where
  "show_nat n = (if n < 10 then [digit_char n] else show_nat (n div 10) @ [digit_char (n mod 10)])"

definition show_int :: "int \<Rightarrow> string" where
  "show_int i = (if i < 0 then ''-'' @ show_nat (nat (- i)) else show_nat (nat i))"

definition waitForContainerToFinish :: "engine \<Rightarrow> nat \<Rightarrow> world \<Rightarrow> unit outcome \<times> world" where
  "waitForContainerToFinish docker container w =
     ((case wait_reply (docker container) of
         Returned StatusCode \<Rightarrow>
           if StatusCode = 0 then Returned ()
           else Thrown (Error (''Puppeteer script execution failed with exit code ''
                               @ show_int StatusCode))
       | Thrown err \<Rightarrow> Thrown err
       | Pending \<Rightarrow> Pending),
      call (WaitContainer container) w)"

section \<open>The orchestrator\<close>

fun join_with :: "string \<Rightarrow> string list \<Rightarrow> string" where
  "join_with sep [] = []"
| "join_with sep [part] = part"
| "join_with sep (part # parts) = part @ sep @ join_with sep parts"

definition commandParts :: "string list" where
  "commandParts =
     [''mkdir -p /home/pptruser/workdir'',
      ''cp -r /home/pptruser/app/{.,}* /home/pptruser/workdir/'',
      ''cd /home/pptruser/workdir'',
      ''npm ci'',
      ''node app.mjs'']"

definition startup_command :: string where
  "startup_command = join_with '' && '' commandParts"

text \<open>The \<open>try\<close> block of \<open>runDockerCommand\<close>: create, start, capture, wait.\<close>

definition runDockerCommand_try :: "engine \<Rightarrow> nat \<Rightarrow> job_config \<Rightarrow> world \<Rightarrow> jsvalue outcome \<times> world" where
  "runDockerCommand_try docker n jobConfig =
     await (createDockerContainer docker n jobConfig) (\<lambda>container.
     await (startDockerContainer docker container) (\<lambda>started.
     await (captureContainerResultFromLogs docker container) (\<lambda>containerResult.
     await (waitForContainerToFinish docker container) (\<lambda>finished w.
       (Returned containerResult, w)))))"

definition runDockerCommand_try_alt :: "engine \<Rightarrow> nat \<Rightarrow> job_config \<Rightarrow> world \<Rightarrow> jsvalue outcome \<times> world" where
  "runDockerCommand_try_alt docker n jobConfig =
     await (createDockerContainer docker n jobConfig) (\<lambda>container.
     await (startDockerContainer docker container) (\<lambda>started.
     await (captureContainerResultFromLogs_alt docker container) (\<lambda>containerResult.
     await (waitForContainerToFinish docker container) (\<lambda>finished w.
       (Returned containerResult, w)))))"

text \<open>
  The condition of the \<open>catch\<close>:
  \<open>err.statusCode === 404 && err.json && err.json.message.includes('No such image')\<close>.
  Evaluating it throws when \<open>err.json\<close> is truthy and its \<open>message\<close> has no
  \<open>includes\<close>.
\<close>

definition image_not_found :: "js_error \<Rightarrow> js_error + bool" where
  "image_not_found err =
     (if statusCode err = JNum 404 then
        (if truthy (json err) then
           (case get_field (json err) ''message'' of
              Inl thrown \<Rightarrow> Inl thrown
            | Inr m \<Rightarrow> includes_js m ''No such image'')
         else Inr False)
      else Inr False)"

text \<open>
  \<open>runDockerCommand\<close> and \<open>handleImageNotFoundThenRetry\<close> of \<open>app.mjs\<close> call each
  other without a bound, so the model counts runs: \<open>None\<close> says that the fuel did not
  suffice, never that the program stopped. Reading \<open>jobParams.programDirectory\<close> is
  outside the \<open>try\<close>. In the promise \<open>pullAndRetry\<close>, an exception of the awaited call
  rejects; \<open>onFinished\<close> with an error logs and returns, settling nothing; an error given
  to the callback is thrown there, after the \<open>try\<close> has been left, so the promise stays
  unsettled (what the uncaught exception does to the process is not modelled);
  \<open>onFinished\<close> without error resolves with a new run.
\<close>

fun runDockerCommand :: "nat \<Rightarrow> engine \<Rightarrow> nat \<Rightarrow> jsvalue \<Rightarrow> world \<Rightarrow> (jsvalue outcome \<times> world) option"
  and handleImageNotFoundThenRetry :: "nat \<Rightarrow> engine \<Rightarrow> nat \<Rightarrow> jsvalue \<Rightarrow> world \<Rightarrow> (jsvalue outcome \<times> world) option"
where
  "runDockerCommand 0 docker n jobParams w = None"
| "runDockerCommand (Suc fuel) docker n jobParams w =
     (case get_field jobParams ''programDirectory'' of
        Inl err \<Rightarrow> Some (Thrown err, w)
      | Inr dir \<Rightarrow>
          (let jobConfig = \<lparr>bashStartUpCmd = startup_command, programDirectory = dir\<rparr> in
           case runDockerCommand_try docker n jobConfig w of
             (Thrown err, w') \<Rightarrow>
               (case image_not_found err of
                  Inl thrown \<Rightarrow> Some (Thrown thrown, w')
                | Inr True \<Rightarrow>
                    handleImageNotFoundThenRetry fuel docker n (job_config_object jobConfig) w'
                | Inr False \<Rightarrow> Some (Thrown err, w'))
           | (Returned containerResult, w') \<Rightarrow> Some (Returned containerResult, w')
           | (Pending, w') \<Rightarrow> Some (Pending, w')))"
| "handleImageNotFoundThenRetry fuel docker n jobParams w =
     (let w1 = call (PullImage puppeteer_image) w in
      case pull_reply (docker n) of
        PullRejected err \<Rightarrow> Some (Thrown err, w1)
      | PullCallbackError err \<Rightarrow> Some (Pending, w1)
      | PullFinished (Some err) \<Rightarrow> Some (Pending, w1)
      | PullFinished None \<Rightarrow> runDockerCommand fuel docker (Suc n) jobParams w1
      | PullSilent \<Rightarrow> Some (Pending, w1))"

text \<open>The second copy: \<open>onFinished\<close> with an error rejects the promise.\<close>

fun runDockerCommand_alt :: "nat \<Rightarrow> engine \<Rightarrow> nat \<Rightarrow> jsvalue \<Rightarrow> world \<Rightarrow> (jsvalue outcome \<times> world) option"
  and handleImageNotFoundThenRetry_alt :: "nat \<Rightarrow> engine \<Rightarrow> nat \<Rightarrow> jsvalue \<Rightarrow> world \<Rightarrow> (jsvalue outcome \<times> world) option"
where
  "runDockerCommand_alt 0 docker n jobParams w = None"
| "runDockerCommand_alt (Suc fuel) docker n jobParams w =
     (case get_field jobParams ''programDirectory'' of
        Inl err \<Rightarrow> Some (Thrown err, w)
      | Inr dir \<Rightarrow>
          (let jobConfig = \<lparr>bashStartUpCmd = startup_command, programDirectory = dir\<rparr> in
           case runDockerCommand_try_alt docker n jobConfig w of
             (Thrown err, w') \<Rightarrow>
               (case image_not_found err of
                  Inl thrown \<Rightarrow> Some (Thrown thrown, w')
                | Inr True \<Rightarrow>
                    handleImageNotFoundThenRetry_alt fuel docker n (job_config_object jobConfig) w'
                | Inr False \<Rightarrow> Some (Thrown err, w'))
           | (Returned containerResult, w') \<Rightarrow> Some (Returned containerResult, w')
           | (Pending, w') \<Rightarrow> Some (Pending, w')))"
| "handleImageNotFoundThenRetry_alt fuel docker n jobParams w =
     (let w1 = call (PullImage puppeteer_image) w in
      case pull_reply (docker n) of
        PullRejected err \<Rightarrow> Some (Thrown err, w1)
      | PullCallbackError err \<Rightarrow> Some (Pending, w1)
      | PullFinished (Some err) \<Rightarrow> Some (Thrown err, w1)
      | PullFinished None \<Rightarrow> runDockerCommand_alt fuel docker (Suc n) jobParams w1
      | PullSilent \<Rightarrow> Some (Pending, w1))"

section \<open>The request handler\<close>

datatype response = Response (status: int) (body: jsvalue)

definition error_body :: "jsvalue \<Rightarrow> jsvalue" where
  "error_body msg = JObj [(''status'', JStr ''error''), (''message'', msg)]"

text \<open>
  \<open>startScrapperJob\<close>: the validation is outside the \<open>try\<close>, so an exception of
  \<open>validateParams\<close> rejects the handler; a run that never settles sends no response.
\<close>

definition startScrapperJob :: "nat \<Rightarrow> string \<Rightarrow> realpath \<Rightarrow> engine \<Rightarrow> jsvalue \<Rightarrow> world
    \<Rightarrow> (response outcome \<times> world) option" where
  "startScrapperJob fuel BASE_PATH_FOR_SCRIPTS realpathSync docker params w =
     (case validateParams BASE_PATH_FOR_SCRIPTS realpathSync params of
        Inl err \<Rightarrow> Some (Thrown err, w)
      | Inr validationResult \<Rightarrow>
          if \<not> isValid validationResult then
            Some (Returned (Response 400 (error_body
              (case error validationResult of None \<Rightarrow> JUndefined | Some e \<Rightarrow> JStr e))), w)
          else
            (case runDockerCommand fuel docker 0 params w of
               None \<Rightarrow> None
             | Some (Returned result, w') \<Rightarrow> Some (Returned (Response 200 result), w')
             | Some (Thrown err, w') \<Rightarrow>
                 Some (Returned (Response 500 (error_body
                   (JStr (''Puppeteer script execution failed: '' @ message err)))), w')
             | Some (Pending, w') \<Rightarrow> Some (Pending, w')))"

definition invalid_directory_message_alt :: string where
  "invalid_directory_message_alt = ''Error: Invalid program directory''"

definition validateParams_alt :: "string \<Rightarrow> realpath \<Rightarrow> jsvalue \<Rightarrow> js_error + validation_result" where
  "validateParams_alt BASE_PATH_FOR_SCRIPTS realpathSync params =
     (case check_required params requiredFields of
        Inl err \<Rightarrow> Inl err
      | Inr (Some e) \<Rightarrow> Inr (make_result (Some e))
      | Inr None \<Rightarrow>
          (case get_field params ''programDirectory'' of
             Inl err \<Rightarrow> Inl err
           | Inr dir \<Rightarrow>
               if \<not> isValidPartialPath BASE_PATH_FOR_SCRIPTS realpathSync dir
               then Inr (make_result (Some invalid_directory_message_alt))
               else Inr (make_result None)))"

definition startScrapperJob_alt :: "nat \<Rightarrow> string \<Rightarrow> realpath \<Rightarrow> engine \<Rightarrow> jsvalue \<Rightarrow> world
    \<Rightarrow> (response outcome \<times> world) option" where
  "startScrapperJob_alt fuel BASE_PATH_FOR_SCRIPTS realpathSync docker params w =
     (case validateParams_alt BASE_PATH_FOR_SCRIPTS realpathSync params of
        Inl err \<Rightarrow> Some (Thrown err, w)
      | Inr validationResult \<Rightarrow>
          if \<not> isValid validationResult then
            Some (Returned (Response 400 (error_body
              (case error validationResult of None \<Rightarrow> JUndefined | Some e \<Rightarrow> JStr e))), w)
          else
            (case runDockerCommand_alt fuel docker 0 params w of
               None \<Rightarrow> None
             | Some (Returned result, w') \<Rightarrow> Some (Returned (Response 200 result), w')
             | Some (Thrown err, w') \<Rightarrow>
                 Some (Returned (Response 500 (error_body
                   (JStr (''Puppeteer script execution failed: '' @ message err)))), w')
             | Some (Pending, w') \<Rightarrow> Some (Pending, w')))"

section \<open>What the properties speak about\<close>

text \<open>A body has its own field \<open>k\<close>.\<close>

fun has_own_field :: "jsvalue \<Rightarrow> string \<Rightarrow> bool" where
  "has_own_field (JObj kvs) k = (map_of kvs k \<noteq> None)"
| "has_own_field v k = False"

text \<open>
  A canonical path stays within a directory when the directory's segments begin its
  own: this follows the specification's words, not the source.
\<close>

definition segments :: "string \<Rightarrow> string list" where
  "segments p = filter (\<lambda>seg. seg \<noteq> []) (split_slash p [])"

definition within_directory :: "string \<Rightarrow> string \<Rightarrow> bool" where
  "within_directory dir p = prefix (segments dir) (segments p)"

text \<open>A canonical path, as \<open>realpathSync\<close> returns it: a slash, then its segments with one
  slash between them.\<close>

definition canonical :: "string \<Rightarrow> bool" where
  "canonical p = (p = ''/'' @ join_slash (segments p))"

text \<open>The text a channel has delivered when it signals its end.\<close>

fun accumulated :: "stream_event list \<Rightarrow> string" where
  "accumulated [] = []"
| "accumulated (Data d # events) = d @ accumulated events"
| "accumulated (End # events) = []"
| "accumulated (StreamError err # events) = []"

text \<open>How many pulls and how many container creations a job has asked of the engine.\<close>

fun is_pull :: "engine_call \<Rightarrow> bool" where
  "is_pull (PullImage name) = True"
| "is_pull c = False"

fun is_create :: "engine_call \<Rightarrow> bool" where
  "is_create (CreateContainer opts) = True"
| "is_create c = False"

definition pulls :: "world \<Rightarrow> nat" where
  "pulls w = length (filter is_pull (calls w))"

definition creates :: "world \<Rightarrow> nat" where
  "creates w = length (filter is_create (calls w))"

text \<open>Run \<open>i\<close> fails at creation with an error that the \<open>catch\<close> takes for a missing
  image, and the pull that follows finishes without error.\<close>

definition absent_then_pulled :: "engine \<Rightarrow> nat \<Rightarrow> bool" where
  "absent_then_pulled docker i =
     (case create_reply (docker i) of
        Thrown err \<Rightarrow> image_not_found err = Inr True \<and> pull_reply (docker i) = PullFinished None
      | Returned u \<Rightarrow> False
      | Pending \<Rightarrow> False)"

text \<open>
  The decimal literal of an integer, read from the text and independent of how the
  program prints it: an optional minus sign, then digits with no leading zero (the text
  \<open>0\<close> apart) whose value is the magnitude.
\<close>

definition digit_table :: "(char \<times> nat) list" where
  "digit_table =
     [(CHR ''0'', 0), (CHR ''1'', 1), (CHR ''2'', 2), (CHR ''3'', 3), (CHR ''4'', 4),
      (CHR ''5'', 5), (CHR ''6'', 6), (CHR ''7'', 7), (CHR ''8'', 8), (CHR ''9'', 9)]"

definition digit_value :: "char \<Rightarrow> nat option" where
  "digit_value c = map_of digit_table c"

fun digits_value :: "nat \<Rightarrow> string \<Rightarrow> nat option" where
  "digits_value acc [] = Some acc"
| "digits_value acc (c # cs) =
     (case digit_value c of None \<Rightarrow> None | Some d \<Rightarrow> digits_value (10 * acc + d) cs)"

definition decimal_digits :: "string \<Rightarrow> nat \<Rightarrow> bool" where
  "decimal_digits ds n =
     (ds \<noteq> [] \<and> (ds = ''0'' \<or> hd ds \<noteq> CHR ''0'') \<and> digits_value 0 ds = Some n)"

definition decimal_literal :: "string \<Rightarrow> int \<Rightarrow> bool" where
  "decimal_literal lit i =
     (if i < 0
      then (case lit of [] \<Rightarrow> False
            | c # ds \<Rightarrow> c = CHR ''-'' \<and> decimal_digits ds (nat (- i)))
      else decimal_digits lit (nat i))"

text \<open>Run \<open>i\<close> of a job on the directory \<open>dir\<close> throws, at whichever stage, an error
  that the \<open>catch\<close> takes for a missing image, and the pull that follows finishes
  without error: the job goes on to run \<open>i + 1\<close>.\<close>

definition run_is_retried :: "engine \<Rightarrow> jsvalue \<Rightarrow> nat \<Rightarrow> bool" where
  "run_is_retried docker dir i =
     (case fst (runDockerCommand_try docker i
                  \<lparr>bashStartUpCmd = startup_command, programDirectory = dir\<rparr>
                  \<lparr>calls = [], host_stderr = []\<rparr>) of
        Thrown err \<Rightarrow> image_not_found err = Inr True \<and> pull_reply (docker i) = PullFinished None
      | Returned v \<Rightarrow> False
      | Pending \<Rightarrow> False)"

section \<open>Concrete requests, file systems and engines\<close>

text \<open>A host with the script directory \<open>/srv/scripts\<close>, one job in it, and a sibling
  directory whose name begins with the same characters.\<close>

definition demo_realpath :: realpath where
  "demo_realpath p =
     (if p \<in> set [''/srv/scripts'', ''/srv/scripts/job1'', ''/srv/scripts-evil'']
      then Inr p
      else Inl (Error (''ENOENT: no such file or directory, realpath '' @ p)))"

definition demo_params :: jsvalue where
  "demo_params = JObj [(''programDirectory'', JStr ''job1'')]"

definition empty_world :: world where
  "empty_world = \<lparr>calls = [], host_stderr = []\<rparr>"

text \<open>The creation call of every run of the job \<open>job1\<close>.\<close>

definition demo_create :: engine_call where
  "demo_create = CreateContainer
     \<lparr>Image = puppeteer_image,
      Cmd = [JStr ''bash'', JStr ''-c'', JStr startup_command],
      Binds = [(JStr ''job1'', '':/home/pptruser/app:ro'')],
      AutoRemove = True,
      InitProcess = True,
      CapAdd = [''SYS_ADMIN'']\<rparr>"

text \<open>The engine's error for a missing image.\<close>

definition no_such_image :: js_error where
  "no_such_image =
     JsError ''(HTTP code 404) no such container - No such image: ghcr.io/puppeteer/puppeteer:22.10.0''
       (JNum 404)
       (JObj [(''message'', JStr ''No such image: ghcr.io/puppeteer/puppeteer:22.10.0'')])"

text \<open>A run in which every call succeeds: the container prints \<open>done\<close> in two chunks,
  writes \<open>warn\<close> to its standard error and exits with 0.\<close>

definition quiet_run :: container_script where
  "quiet_run =
     \<lparr>create_reply = Returned (),
      start_reply = Returned (),
      attach_stdout_reply = Returned [Data ''do'', Data ''ne'', End],
      attach_stderr_reply = Returned [''warn''],
      wait_reply = Returned 0,
      pull_reply = PullFinished None\<rparr>"

definition quiet_engine :: engine where
  "quiet_engine n = quiet_run"

text \<open>The container exits with code \<open>code\<close>.\<close>

definition exit_engine :: "int \<Rightarrow> engine" where
  "exit_engine code n = quiet_run\<lparr>wait_reply := Returned code\<rparr>"

text \<open>The image is reported missing on the first two runs, present on the third.\<close>

definition twice_absent_engine :: engine where
  "twice_absent_engine n =
     (if n < 2 then quiet_run\<lparr>create_reply := Thrown no_such_image\<rparr> else quiet_run)"

text \<open>The image is missing and its pull finishes with an error.\<close>

definition failed_pull_engine :: engine where
  "failed_pull_engine n =
     quiet_run\<lparr>create_reply := Thrown no_such_image,
               pull_reply := PullFinished (Some (Error ''manifest unknown''))\<rparr>"

text \<open>The attach call for standard output fails.\<close>

definition failed_attach_engine :: engine where
  "failed_attach_engine n = quiet_run\<lparr>attach_stdout_reply := Thrown (Error ''socket hang up'')\<rparr>"

text \<open>The attach call for standard error fails; the one for standard output succeeds and
  its channel delivers \<open>done\<close>.\<close>

definition failed_stderr_attach_engine :: engine where
  "failed_stderr_attach_engine n =
     quiet_run\<lparr>attach_stderr_reply := Thrown (Error ''connect EAGAIN'')\<rparr>"

text \<open>The first container is created, and starting it fails with the error for a
  missing image.\<close>

definition start_absent_engine :: engine where
  "start_absent_engine n =
     (if n = 0 then quiet_run\<lparr>start_reply := Thrown no_such_image\<rparr> else quiet_run)"

text \<open>The image is reported missing on the first run; the container of the second run
  exits with code \<open>code\<close>.\<close>

definition retried_exit_engine :: "int \<Rightarrow> engine" where
  "retried_exit_engine code n =
     (if n = 0 then quiet_run\<lparr>create_reply := Thrown no_such_image\<rparr>
      else quiet_run\<lparr>wait_reply := Returned code\<rparr>)"

section \<open>Validation\<close>


lemma get_field_missing:
  "params \<noteq> JUndefined \<Longrightarrow> params \<noteq> JNull \<Longrightarrow> \<not> has_own_field params k
     \<Longrightarrow> get_field params k = Inr JUndefined"
  by (cases params) simp_all

lemma validateParams_falsy:
  assumes "get_field params ''programDirectory'' = Inr v" and "\<not> truthy v"
  shows "validateParams base rp params =
           Inr \<lparr>isValid = False, error = Some ''Error: programDirectory is required''\<rparr>"
  using assms by (simp add: validateParams_def requiredFields_def make_result_def)

text \<open>
  C8. A request body without a \<open>programDirectory\<close> field is answered with 400 and the
  message \<open>Error: programDirectory is required\<close>, and the world is the one the handler
  started from: no call reached the engine, so no container was created.
\<close>

theorem missing_programDirectory_400:
  assumes "params \<noteq> JUndefined" and "params \<noteq> JNull"
      and "\<not> has_own_field params ''programDirectory''"
  shows "startScrapperJob fuel base rp docker params w =
           Some (Returned (Response 400
                   (JObj [(''status'', JStr ''error''),
                          (''message'', JStr ''Error: programDirectory is required'')])), w)"
proof -
  have "get_field params ''programDirectory'' = Inr JUndefined"
    using assms by (rule get_field_missing)
  then have "validateParams base rp params =
      Inr \<lparr>isValid = False, error = Some ''Error: programDirectory is required''\<rparr>"
    by (rule validateParams_falsy) simp
  then show ?thesis
    by (simp add: startScrapperJob_def error_body_def)
qed

theorem missing_programDirectory_400_witness:
  "JObj [(''other'', JStr ''job1'')] \<noteq> JUndefined
   \<and> JObj [(''other'', JStr ''job1'')] \<noteq> JNull
   \<and> \<not> has_own_field (JObj [(''other'', JStr ''job1'')]) ''programDirectory''
   \<and> startScrapperJob 1 ''/srv/scripts'' demo_realpath quiet_engine
        (JObj [(''other'', JStr ''job1'')]) empty_world =
      Some (Returned (Response 400
              (JObj [(''status'', JStr ''error''),
                     (''message'', JStr ''Error: programDirectory is required'')])), empty_world)"
  using missing_programDirectory_400
    [of "JObj [(''other'', JStr ''job1'')]" 1 "''/srv/scripts''" demo_realpath quiet_engine empty_world]
  by simp



text \<open>
  C10. A body whose \<open>programDirectory\<close> is falsy (the empty string, \<open>0\<close>, \<open>false\<close>,
  \<open>null\<close>) is rejected with \<open>Error: programDirectory is required\<close>, which is not the
  invalid-directory message.
\<close>

theorem falsy_programDirectory_is_required:
  assumes "get_field params ''programDirectory'' = Inr v" and "\<not> truthy v"
  shows "validateParams base rp params =
           Inr \<lparr>isValid = False, error = Some ''Error: programDirectory is required''\<rparr>
         \<and> ''Error: programDirectory is required'' \<noteq> invalid_directory_message"
  using assms
  by (simp add: validateParams_def requiredFields_def make_result_def
        invalid_directory_message_def)

theorem falsy_programDirectory_is_required_witness:
  "get_field (JObj [(''programDirectory'', JStr '''')]) ''programDirectory'' = Inr (JStr '''')
   \<and> \<not> truthy (JStr '''')
   \<and> validateParams ''/srv/scripts'' demo_realpath (JObj [(''programDirectory'', JStr '''')]) =
        Inr \<lparr>isValid = False, error = Some ''Error: programDirectory is required''\<rparr>"
  using falsy_programDirectory_is_required
    [of "JObj [(''programDirectory'', JStr '''')]" "JStr ''''" "''/srv/scripts''" demo_realpath]
  by simp

section \<open>Facts about the stages\<close>

lemmas demo_defs = demo_realpath_def demo_params_def empty_world_def demo_create_def
  no_such_image_def quiet_run_def

lemmas stage_defs = runDockerCommand_try_def await_def createDockerContainer_def
  startDockerContainer_def captureContainerResultFromLogs_def waitForContainerToFinish_def
  call_def Let_def

lemmas stage_defs_alt = runDockerCommand_try_alt_def await_def createDockerContainer_def
  startDockerContainer_def captureContainerResultFromLogs_alt_def waitForContainerToFinish_def
  call_def Let_def

lemma demo_valid:
  "validateParams ''/srv/scripts'' demo_realpath demo_params =
     Inr \<lparr>isValid = True, error = None\<rparr>"
  by (simp add: validateParams_def requiredFields_def make_result_def isValidPartialPath_def
        isValidPartialPath_try_def demo_realpath_def demo_params_def)

lemma demo_valid_alt:
  "validateParams_alt ''/srv/scripts'' demo_realpath demo_params =
     Inr \<lparr>isValid = True, error = None\<rparr>"
  by (simp add: validateParams_alt_def requiredFields_def make_result_def isValidPartialPath_def
        isValidPartialPath_try_def demo_realpath_def demo_params_def)

lemma valid_has_directory:
  assumes "validateParams base rp params = Inr r" and "isValid r"
  shows "\<exists>dir. get_field params ''programDirectory'' = Inr dir"
  using assms
  by (auto simp add: validateParams_def requiredFields_def make_result_def
        split: sum.splits option.splits if_splits)

lemma get_field_job_config_object [simp]:
  "get_field (job_config_object jobConfig) ''programDirectory'' = Inr (programDirectory jobConfig)"
  by (simp add: job_config_object_def)

lemma pulls_call [simp]: "pulls (call c w) = (if is_pull c then Suc (pulls w) else pulls w)"
  by (simp add: pulls_def call_def)

lemma creates_call [simp]:
  "creates (call c w) = (if is_create c then Suc (creates w) else creates w)"
  by (simp add: creates_def call_def)

lemma pulls_host_stderr [simp]: "pulls (w\<lparr>host_stderr := t\<rparr>) = pulls w"
  by (simp add: pulls_def)

lemma creates_host_stderr [simp]: "creates (w\<lparr>host_stderr := t\<rparr>) = creates w"
  by (simp add: creates_def)

text \<open>The four stages ask for one container and for no pull.\<close>

lemma try_counts:
  assumes "runDockerCommand_try docker n jobConfig w = (r, w')"
  shows "pulls w' = pulls w \<and> creates w' = Suc (creates w)"
  using assms
  by (auto simp add: runDockerCommand_try_def await_def createDockerContainer_def
        startDockerContainer_def captureContainerResultFromLogs_def waitForContainerToFinish_def
        Let_def split: outcome.splits prod.splits if_splits)

text \<open>How the stages settle depends on the engine, not on what was recorded before.\<close>

lemma capture_outcome_any_world:
  "fst (captureContainerResultFromLogs docker container w) =
   fst (captureContainerResultFromLogs docker container w')"
  by (simp add: captureContainerResultFromLogs_def Let_def split: outcome.splits prod.splits)

lemma try_outcome_any_world:
  "fst (runDockerCommand_try docker n jobConfig w) =
   fst (runDockerCommand_try docker n jobConfig w')"
  by (simp add: runDockerCommand_try_def await_def createDockerContainer_def
        startDockerContainer_def captureContainerResultFromLogs_def waitForContainerToFinish_def
        Let_def split: outcome.splits prod.splits)

lemma try_create_fails:
  "create_reply (docker n) = Thrown err \<Longrightarrow>
   runDockerCommand_try docker n jobConfig w =
     (Thrown err, snd (createDockerContainer docker n jobConfig w))"
  by (simp add: runDockerCommand_try_def await_def createDockerContainer_def)

lemma try_reaches_wait:
  assumes "create_reply (docker n) = Returned ()"
      and "start_reply (docker n) = Returned ()"
      and "fst (captureContainerResultFromLogs docker n w) = Returned out"
      and "wait_reply (docker n) = Returned code"
  shows "\<exists>w'. runDockerCommand_try docker n jobConfig w =
           (if code = 0 then Returned out
            else Thrown (Error (''Puppeteer script execution failed with exit code ''
                                @ show_int code)),
            w')"
proof -
  let ?w2 = "snd (startDockerContainer docker n (snd (createDockerContainer docker n jobConfig w)))"
  have "fst (captureContainerResultFromLogs docker n ?w2) = Returned out"
    using assms(3) capture_outcome_any_world [of docker n ?w2 w] by simp
  then obtain w3 where "captureContainerResultFromLogs docker n ?w2 = (Returned out, w3)"
    by (cases "captureContainerResultFromLogs docker n ?w2") simp
  then show ?thesis
    using assms(1,2,4)
    by (simp add: runDockerCommand_try_def await_def createDockerContainer_def
          startDockerContainer_def waitForContainerToFinish_def)
qed

section \<open>The exit code\<close>

lemma show_int_examples:
  "show_int 0 = ''0''" "show_int 1 = ''1''" "show_int 137 = ''137''" "show_int (- 1) = ''-1''"
  by (simp_all add: show_int_def digit_char_def)

text \<open>What the program prints for an exit code is the decimal literal of that code.\<close>

lemma digit_value_digit_char: "d < 10 \<Longrightarrow> digit_value (digit_char d) = Some d"
proof -
  assume "d < 10"
  then have "d = 0 \<or> d = 1 \<or> d = 2 \<or> d = 3 \<or> d = 4 \<or> d = 5 \<or> d = 6 \<or> d = 7 \<or> d = 8 \<or> d = 9"
    by arith
  then show ?thesis
    by (elim disjE) (simp_all add: digit_char_def digit_value_def digit_table_def)
qed

lemma digit_char_zero: "d < 10 \<Longrightarrow> digit_char d = CHR ''0'' \<Longrightarrow> d = 0"
proof -
  assume small: "d < 10" and z: "digit_char d = CHR ''0''"
  from small have "digit_value (digit_char d) = Some d"
    by (rule digit_value_digit_char)
  then have "digit_value (CHR ''0'') = Some d"
    unfolding z .
  then show ?thesis by (simp add: digit_value_def digit_table_def)
qed

lemma digits_value_snoc:
  "digits_value acc (cs @ [c]) =
     (case digits_value acc cs of
        None \<Rightarrow> None
      | Some v \<Rightarrow> (case digit_value c of None \<Rightarrow> None | Some d \<Rightarrow> Some (10 * v + d)))"
proof (induction cs arbitrary: acc)
  case Nil
  show ?case by (cases "digit_value c") simp_all
next
  case (Cons a cs)
  show ?case
    by (cases "digit_value a") (simp_all only: append_Cons digits_value.simps option.case Cons.IH)
qed

declare show_nat.simps [simp del]

lemma show_nat_small: "n < 10 \<Longrightarrow> show_nat n = [digit_char n]"
  by (subst show_nat.simps) simp

lemma show_nat_large:
  "\<not> n < 10 \<Longrightarrow> show_nat n = show_nat (n div 10) @ [digit_char (n mod 10)]"
  by (subst show_nat.simps) simp

lemma show_nat_not_empty: "show_nat n \<noteq> []"
  by (cases "n < 10") (simp_all add: show_nat_small show_nat_large)

lemma show_nat_value: "digits_value 0 (show_nat n) = Some n"
proof (induction n rule: show_nat.induct)
  case (1 n)
  show ?case
  proof (cases "n < 10")
    case True
    then show ?thesis
      by (simp add: show_nat_small digit_value_digit_char)
  next
    case False
    have "digit_value (digit_char (n mod 10)) = Some (n mod 10)"
      by (rule digit_value_digit_char) simp
    with False 1 show ?thesis
      by (simp add: show_nat_large digits_value_snoc)
  qed
qed

lemma show_nat_leading: "n \<noteq> 0 \<Longrightarrow> hd (show_nat n) \<noteq> CHR ''0''"
proof (induction n rule: show_nat.induct)
  case (1 n)
  show ?case
  proof (cases "n < 10")
    case True
    with "1.prems" show ?thesis
      using digit_char_zero [of n] by (auto simp add: show_nat_small)
  next
    case False
    then have "n div 10 \<noteq> 0" by simp
    with False 1 show ?thesis
      by (simp add: show_nat_large show_nat_not_empty)
  qed
qed

lemma show_nat_decimal: "decimal_digits (show_nat n) n"
proof (cases "n = 0")
  case True
  then show ?thesis
    by (simp add: decimal_digits_def show_nat_small digit_char_def digit_value_def
          digit_table_def)
next
  case False
  then show ?thesis
    by (simp add: decimal_digits_def show_nat_not_empty show_nat_value show_nat_leading)
qed

lemma show_int_decimal: "decimal_literal (show_int i) i"
  by (simp add: decimal_literal_def show_int_def show_nat_decimal)

text \<open>A retried run hands the job to the next run, on the same directory.\<close>

lemma retried_run_retries:
  assumes "get_field jobParams ''programDirectory'' = Inr dir"
      and "run_is_retried docker dir n"
  shows "\<exists>w'. runDockerCommand (Suc m) docker n jobParams w =
           runDockerCommand m docker (Suc n)
             (job_config_object \<lparr>bashStartUpCmd = startup_command, programDirectory = dir\<rparr>) w'"
proof -
  let ?cfg = "\<lparr>bashStartUpCmd = startup_command, programDirectory = dir\<rparr>"
  obtain r1 w1 where t: "runDockerCommand_try docker n ?cfg w = (r1, w1)"
    by (cases "runDockerCommand_try docker n ?cfg w")
  then have "fst (runDockerCommand_try docker n ?cfg \<lparr>calls = [], host_stderr = []\<rparr>) = r1"
    using try_outcome_any_world [of docker n ?cfg w "\<lparr>calls = [], host_stderr = []\<rparr>"] by simp
  with assms(2) obtain err where err: "r1 = Thrown err" "image_not_found err = Inr True"
      "pull_reply (docker n) = PullFinished None"
    by (auto simp add: run_is_retried_def split: outcome.splits)
  with assms(1) t
  have "runDockerCommand (Suc m) docker n jobParams w =
        runDockerCommand m docker (Suc n) (job_config_object ?cfg)
          (call (PullImage puppeteer_image) w1)"
    by (simp add: Let_def)
  then show ?thesis by blast
qed

lemma retried_runs_unroll:
  assumes "get_field jobParams ''programDirectory'' = Inr dir"
      and "\<forall>i<k. run_is_retried docker dir (n + i)"
  shows "\<exists>jobParams' w'. get_field jobParams' ''programDirectory'' = Inr dir
           \<and> runDockerCommand (k + Suc fuel) docker n jobParams w =
               runDockerCommand (Suc fuel) docker (n + k) jobParams' w'"
  using assms
proof (induction k arbitrary: n jobParams w)
  case 0
  then show ?case
    by (intro exI [of _ jobParams] exI [of _ w]) simp
next
  case (Suc k)
  let ?cfg = "\<lparr>bashStartUpCmd = startup_command, programDirectory = dir\<rparr>"
  have "run_is_retried docker dir n"
    using Suc.prems(2) [rule_format, of 0] by simp
  from retried_run_retries [OF Suc.prems(1) this, of "k + Suc fuel" w]
  obtain w1 where step: "runDockerCommand (Suc (k + Suc fuel)) docker n jobParams w =
        runDockerCommand (k + Suc fuel) docker (Suc n) (job_config_object ?cfg) w1"
    by blast
  have rest: "\<forall>i<k. run_is_retried docker dir (Suc n + i)"
    using Suc.prems(2) [rule_format, of "Suc i" for i] by simp
  have "get_field (job_config_object ?cfg) ''programDirectory'' = Inr dir"
    by simp
  from Suc.IH [OF this rest, of w1]
  obtain jobParams' w' where ih:
    "get_field jobParams' ''programDirectory'' = Inr dir"
    "runDockerCommand (k + Suc fuel) docker (Suc n) (job_config_object ?cfg) w1 =
       runDockerCommand (Suc fuel) docker (Suc n + k) jobParams' w'"
    by blast
  have "runDockerCommand (Suc k + Suc fuel) docker n jobParams w =
        runDockerCommand (Suc fuel) docker (n + Suc k) jobParams' w'"
    using step ih(2) by (simp del: runDockerCommand.simps)
  with ih(1) show ?case by blast
qed

text \<open>
  C6. Take any run of a valid request that reaches the wait: run \<open>k\<close>, after \<open>k\<close>
  retried runs (\<open>k\<close> may be 0), whose container is created and started and whose capture
  returns \<open>out\<close>. The exit code decides the response: code 0 gives 200 with \<open>out\<close>, and
  every other code \<open>N\<close> gives 500 with a message that ends in the decimal literal of
  \<open>N\<close>. Any fuel above \<open>k\<close> suffices.
\<close>

theorem exit_code_decides_response:
  assumes "validateParams base rp params = Inr \<lparr>isValid = True, error = None\<rparr>"
      and "get_field params ''programDirectory'' = Inr dir"
      and "\<forall>i<k. run_is_retried docker dir i"
      and "create_reply (docker k) = Returned ()"
      and "start_reply (docker k) = Returned ()"
      and "fst (captureContainerResultFromLogs docker k w) = Returned out"
      and "wait_reply (docker k) = Returned code"
  shows "\<exists>lit. decimal_literal lit code
           \<and> map_option fst (startScrapperJob (k + Suc fuel) base rp docker params w) =
               Some (Returned
                 (if code = 0 then Response 200 out
                  else Response 500
                    (JObj [(''status'', JStr ''error''),
                           (''message'', JStr (''Puppeteer script execution failed: ''
                              @ ''Puppeteer script execution failed with exit code ''
                              @ lit))])))"
proof -
  let ?cfg = "\<lparr>bashStartUpCmd = startup_command, programDirectory = dir\<rparr>"
  from retried_runs_unroll [of params dir k docker 0 fuel w] assms(2,3)
  obtain jobParams' w1 where u:
    "get_field jobParams' ''programDirectory'' = Inr dir"
    "runDockerCommand (k + Suc fuel) docker 0 params w =
       runDockerCommand (Suc fuel) docker k jobParams' w1"
    by auto
  have "fst (captureContainerResultFromLogs docker k w1) = Returned out"
    using assms(6) capture_outcome_any_world [of docker k w1 w] by simp
  from try_reaches_wait [OF assms(4,5) this assms(7), of ?cfg]
  obtain w2 where run: "runDockerCommand_try docker k ?cfg w1 =
      (if code = 0 then Returned out
       else Thrown (Error (''Puppeteer script execution failed with exit code '' @ show_int code)),
       w2)"
    by blast
  have last: "runDockerCommand (Suc fuel) docker k jobParams' w1 =
      Some (if code = 0 then Returned out
            else Thrown (Error (''Puppeteer script execution failed with exit code ''
                                @ show_int code)), w2)"
    using u(1) run by (simp add: Error_def image_not_found_def)
  have "map_option fst (startScrapperJob (k + Suc fuel) base rp docker params w) =
               Some (Returned
                 (if code = 0 then Response 200 out
                  else Response 500
                    (JObj [(''status'', JStr ''error''),
                           (''message'', JStr (''Puppeteer script execution failed: ''
                              @ ''Puppeteer script execution failed with exit code ''
                              @ show_int code))])))"
    unfolding startScrapperJob_def u(2) last
    using assms(1) by (simp add: error_body_def Error_def)
  with show_int_decimal [of code] show ?thesis
    by blast
qed

theorem exit_code_decides_response_witness:
  "validateParams ''/srv/scripts'' demo_realpath demo_params =
     Inr \<lparr>isValid = True, error = None\<rparr>
   \<and> get_field demo_params ''programDirectory'' = Inr (JStr ''job1'')
   \<and> run_is_retried (retried_exit_engine 137) (JStr ''job1'') 0
   \<and> create_reply (retried_exit_engine 137 1) = Returned ()
   \<and> start_reply (retried_exit_engine 137 1) = Returned ()
   \<and> fst (captureContainerResultFromLogs (retried_exit_engine 137) 1 empty_world) =
       Returned (JStr ''done'')
   \<and> wait_reply (retried_exit_engine 137 1) = Returned 137
   \<and> decimal_literal ''137'' 137
   \<and> map_option fst (startScrapperJob 2 ''/srv/scripts'' demo_realpath (retried_exit_engine 137)
        demo_params empty_world) =
      Some (Returned (Response 500
        (JObj [(''status'', JStr ''error''),
               (''message'', JStr ''Puppeteer script execution failed: Puppeteer script execution failed with exit code 137'')])))
   \<and> create_reply (quiet_engine 0) = Returned ()
   \<and> start_reply (quiet_engine 0) = Returned ()
   \<and> fst (captureContainerResultFromLogs quiet_engine 0 empty_world) = Returned (JStr ''done'')
   \<and> wait_reply (quiet_engine 0) = Returned 0
   \<and> map_option fst (startScrapperJob 1 ''/srv/scripts'' demo_realpath quiet_engine
        demo_params empty_world) =
      Some (Returned (Response 200 (JStr ''done'')))"
proof -
  have dir: "get_field demo_params ''programDirectory'' = Inr (JStr ''job1'')"
    by (simp add: demo_params_def)
  have r0: "run_is_retried (retried_exit_engine 137) (JStr ''job1'') 0"
    by (simp add: run_is_retried_def stage_defs retried_exit_engine_def quiet_run_def
          no_such_image_def image_not_found_def)
  then have retried: "\<forall>i<1. run_is_retried (retried_exit_engine 137) (JStr ''job1'') i"
    by simp
  have hyps: "create_reply (retried_exit_engine 137 1) = Returned ()"
    "start_reply (retried_exit_engine 137 1) = Returned ()"
    "fst (captureContainerResultFromLogs (retried_exit_engine 137) 1 empty_world) =
       Returned (JStr ''done'')"
    "wait_reply (retried_exit_engine 137 1) = Returned 137"
    by (simp_all add: retried_exit_engine_def quiet_run_def captureContainerResultFromLogs_def
          Let_def)
  from exit_code_decides_response [OF demo_valid dir retried hyps, of 0]
  obtain lit where lit: "decimal_literal lit 137"
    "map_option fst (startScrapperJob 2 ''/srv/scripts'' demo_realpath (retried_exit_engine 137)
        demo_params empty_world) =
      Some (Returned (Response 500
        (JObj [(''status'', JStr ''error''),
               (''message'', JStr (''Puppeteer script execution failed: ''
                  @ ''Puppeteer script execution failed with exit code '' @ lit))])))"
    by (auto simp del: runDockerCommand.simps simp add: eval_nat_numeral)
  have printed: "show_int 137 = ''137''"
    by (simp add: show_int_def show_nat_large show_nat_small digit_char_def)
  have "map_option fst (startScrapperJob 2 ''/srv/scripts'' demo_realpath
          (retried_exit_engine 137) demo_params empty_world) =
      Some (Returned (Response 500
        (JObj [(''status'', JStr ''error''),
               (''message'', JStr ''Puppeteer script execution failed: Puppeteer script execution failed with exit code 137'')])))"
    using printed
    by (simp add: startScrapperJob_def demo_valid)
       (simp add: demo_defs stage_defs retried_exit_engine_def image_not_found_def
          job_config_object_def eval_nat_numeral error_body_def Error_def)
  with lit have "lit = ''137''"
    by simp
  with lit have first: "decimal_literal ''137'' 137"
    "map_option fst (startScrapperJob 2 ''/srv/scripts'' demo_realpath (retried_exit_engine 137)
        demo_params empty_world) =
      Some (Returned (Response 500
        (JObj [(''status'', JStr ''error''),
               (''message'', JStr ''Puppeteer script execution failed: Puppeteer script execution failed with exit code 137'')])))"
    by simp_all
  have none: "\<forall>i<0. run_is_retried quiet_engine (JStr ''job1'') i"
    by simp
  have hyps0: "create_reply (quiet_engine 0) = Returned ()"
    "start_reply (quiet_engine 0) = Returned ()"
    "fst (captureContainerResultFromLogs quiet_engine 0 empty_world) = Returned (JStr ''done'')"
    "wait_reply (quiet_engine 0) = Returned 0"
    by (simp_all add: quiet_engine_def quiet_run_def captureContainerResultFromLogs_def Let_def)
  from exit_code_decides_response [OF demo_valid dir none hyps0, of 0]
  have second: "map_option fst (startScrapperJob 1 ''/srv/scripts'' demo_realpath quiet_engine
        demo_params empty_world) =
      Some (Returned (Response 200 (JStr ''done'')))"
    by (simp del: runDockerCommand.simps)
  from demo_valid dir r0 hyps first hyps0 second show ?thesis
    by blast
qed

section \<open>Attach failures and the captured text\<close>

text \<open>
  C5. In \<open>app.mjs\<close> a failed attach is caught inside \<open>captureContainerResultFromLogs\<close>
  and not thrown again: with the attach for standard output failing and the container
  exiting with 0, the caller receives 200 with \<open>undefined\<close>, not 500.
\<close>

theorem failed_attach_is_answered_200:
  "startScrapperJob (Suc fuel) ''/srv/scripts'' demo_realpath failed_attach_engine demo_params
     empty_world =
   Some (Returned (Response 200 JUndefined),
         \<lparr>calls = [demo_create, StartContainer 0, Attach 0 True False, Attach 0 False True,
                   WaitContainer 0],
          host_stderr = []\<rparr>)"
  by (simp add: startScrapperJob_def demo_valid)
     (simp add: demo_defs stage_defs failed_attach_engine_def)

text \<open>The second copy of the service throws the error again, and the caller receives 500.\<close>

lemma failed_attach_is_answered_500_alt:
  "startScrapperJob_alt (Suc fuel) ''/srv/scripts'' demo_realpath failed_attach_engine demo_params
     empty_world =
   Some (Returned (Response 500
           (JObj [(''status'', JStr ''error''),
                  (''message'', JStr ''Puppeteer script execution failed: socket hang up'')])),
         \<lparr>calls = [demo_create, StartContainer 0, Attach 0 True False, Attach 0 False True],
          host_stderr = []\<rparr>)"
  by (simp add: startScrapperJob_alt_def demo_valid_alt)
     (simp add: demo_defs stage_defs_alt failed_attach_engine_def image_not_found_def
        error_body_def Error_def)

text \<open>
  C7. The channel for standard output is attached and delivers \<open>done\<close>, the attach for
  standard error fails, the container exits with 0: the job succeeds (200), and its
  result is \<open>undefined\<close>, not the text \<open>done\<close> that the channel delivered.
\<close>

theorem swallowed_attach_loses_stdout:
  "attach_stdout_reply (failed_stderr_attach_engine 0) = Returned [Data ''do'', Data ''ne'', End]
   \<and> collectStdout [Data ''do'', Data ''ne'', End] [] = Returned (JStr ''done'')
   \<and> startScrapperJob (Suc fuel) ''/srv/scripts'' demo_realpath failed_stderr_attach_engine
        demo_params empty_world =
      Some (Returned (Response 200 JUndefined),
            \<lparr>calls = [demo_create, StartContainer 0, Attach 0 True False, Attach 0 False True,
                      WaitContainer 0],
             host_stderr = []\<rparr>)"
  by (simp add: startScrapperJob_def demo_valid)
     (simp add: demo_defs stage_defs failed_stderr_attach_engine_def)

text \<open>
  Every text returned by the second copy comes from a channel for standard output that
  was attached: it is what some run's channel delivered up to its end.
\<close>

lemma collectStdout_accumulates:
  "collectStdout events stdoutData = Returned v \<Longrightarrow> v = JStr (stdoutData @ accumulated events)"
  by (induction events stdoutData rule: collectStdout.induct) simp_all

lemma attached_result_is_stdout:
  assumes "attach_stdout_reply (docker n) = Returned events"
      and "attach_stderr_reply (docker n) = Returned chunks"
      and "runDockerCommand_try docker n jobConfig w = (Returned out, w')"
  shows "out = JStr (accumulated events) \<and> host_stderr w' = host_stderr w @ concat chunks"
  using assms collectStdout_accumulates [of events "[]" out]
  by (auto simp add: runDockerCommand_try_def await_def createDockerContainer_def
        startDockerContainer_def captureContainerResultFromLogs_def waitForContainerToFinish_def
        call_def Let_def split: outcome.splits if_splits)

lemma attach_failure_is_thrown_alt:
  assumes "promise_all2 (attach_stdout_reply (docker n)) (attach_stderr_reply (docker n)) = Thrown err"
  shows "fst (captureContainerResultFromLogs_alt docker n w) = Thrown err"
  using assms by (simp add: captureContainerResultFromLogs_alt_def Let_def)

lemma stream_error_is_thrown:
  assumes "attach_stdout_reply (docker n) = Returned events"
      and "attach_stderr_reply (docker n) = Returned chunks"
      and "collectStdout events [] = Thrown err"
  shows "fst (captureContainerResultFromLogs docker n w) = Thrown err"
    and "fst (captureContainerResultFromLogs_alt docker n w) = Thrown err"
  using assms
  by (simp_all add: captureContainerResultFromLogs_def captureContainerResultFromLogs_alt_def
        Let_def)

lemma try_alt_result_is_stdout:
  assumes "runDockerCommand_try_alt docker n jobConfig w = (Returned out, w')"
  shows "\<exists>events. attach_stdout_reply (docker n) = Returned events
           \<and> out = JStr (accumulated events)"
proof -
  obtain events chunks where att: "attach_stdout_reply (docker n) = Returned events"
      "attach_stderr_reply (docker n) = Returned chunks"
      and col: "collectStdout events [] = Returned out"
    using assms
    by (auto simp add: runDockerCommand_try_alt_def await_def createDockerContainer_def
          startDockerContainer_def captureContainerResultFromLogs_alt_def
          waitForContainerToFinish_def call_def Let_def
          split: outcome.splits if_splits elim: promise_all2.elims)
  from collectStdout_accumulates [OF col] att show ?thesis by simp
qed

lemma alt_result_is_stdout:
  "runDockerCommand_alt fuel docker n jobParams w = Some (Returned out, w') \<Longrightarrow>
   \<exists>m events. attach_stdout_reply (docker m) = Returned events \<and> out = JStr (accumulated events)"
proof (induction fuel arbitrary: n jobParams w)
  case 0
  then show ?case by simp
next
  case (Suc fuel)
  show ?case
  proof (cases "get_field jobParams ''programDirectory''")
    case (Inl thrown)
    with Suc.prems show ?thesis by simp
  next
    case (Inr dir)
    let ?cfg = "\<lparr>bashStartUpCmd = startup_command, programDirectory = dir\<rparr>"
    obtain r1 w1 where t: "runDockerCommand_try_alt docker n ?cfg w = (r1, w1)"
      by (cases "runDockerCommand_try_alt docker n ?cfg w")
    show ?thesis
    proof (cases r1)
      case (Returned v)
      with Suc.prems Inr t have "v = out" by simp
      with t Returned try_alt_result_is_stdout [of docker n ?cfg w out w1]
      show ?thesis by blast
    next
      case Pending
      with Suc.prems Inr t show ?thesis by simp
    next
      case (Thrown err)
      with Suc.prems Inr t
      have "runDockerCommand_alt fuel docker (Suc n) (job_config_object ?cfg)
              (call (PullImage puppeteer_image) w1) = Some (Returned out, w')"
        by (auto simp add: Let_def split: sum.splits bool.splits pull_reply.splits option.splits)
      then show ?thesis by (rule Suc.IH)
    qed
  qed
qed

section \<open>The pull\<close>

text \<open>
  C4. In \<open>app.mjs\<close>, \<open>onFinished\<close> with an error returns without settling the promise:
  with the image missing and the pull finishing with an error, the handler never sends
  a response.
\<close>

theorem failed_pull_never_answers:
  "startScrapperJob (Suc fuel) ''/srv/scripts'' demo_realpath failed_pull_engine demo_params
     empty_world =
   Some (Pending, \<lparr>calls = [demo_create, PullImage puppeteer_image], host_stderr = []\<rparr>)"
  by (simp add: startScrapperJob_def demo_valid)
     (simp add: demo_defs stage_defs failed_pull_engine_def image_not_found_def
        job_config_object_def)

text \<open>The second copy of the service rejects, and the caller receives 500.\<close>

lemma failed_pull_is_answered_500_alt:
  "startScrapperJob_alt (Suc fuel) ''/srv/scripts'' demo_realpath failed_pull_engine demo_params
     empty_world =
   Some (Returned (Response 500
           (JObj [(''status'', JStr ''error''),
                  (''message'', JStr ''Puppeteer script execution failed: manifest unknown'')])),
         \<lparr>calls = [demo_create, PullImage puppeteer_image], host_stderr = []\<rparr>)"
  by (simp add: startScrapperJob_alt_def demo_valid_alt)
     (simp add: demo_defs stage_defs_alt failed_pull_engine_def image_not_found_def
        job_config_object_def error_body_def Error_def)

section \<open>The path validator\<close>

text \<open>
  C1. On a host where \<open>/srv/scripts-evil\<close> lies beside the base directory
  \<open>/srv/scripts\<close>, the relative path \<open>../scripts-evil\<close> resolves to that sibling,
  which is not within the base directory, and the validator accepts it: the resolved
  text begins with the characters of the base.
\<close>

theorem sibling_directory_is_accepted:
  "path_resolve ''/srv/scripts'' (JStr ''../scripts-evil'') = Inr ''/srv/scripts-evil''
   \<and> demo_realpath ''/srv/scripts'' = Inr ''/srv/scripts''
   \<and> demo_realpath ''/srv/scripts-evil'' = Inr ''/srv/scripts-evil''
   \<and> \<not> within_directory ''/srv/scripts'' ''/srv/scripts-evil''
   \<and> isValidPartialPath ''/srv/scripts'' demo_realpath (JStr ''../scripts-evil'')
   \<and> validateParams ''/srv/scripts'' demo_realpath
         (JObj [(''programDirectory'', JStr ''../scripts-evil'')]) =
       Inr \<lparr>isValid = True, error = None\<rparr>"
  by (simp add: validateParams_def requiredFields_def make_result_def isValidPartialPath_def
        isValidPartialPath_try_def demo_realpath_def within_directory_def segments_def)

text \<open>The other direction holds: a path whose canonical form stays within the canonical
  base directory is accepted.\<close>

lemma join_slash_append:
  "xs \<noteq> [] \<Longrightarrow> ys \<noteq> [] \<Longrightarrow> join_slash (xs @ ys) = join_slash xs @ ''/'' @ join_slash ys"
proof (induction xs rule: join_slash.induct)
  case 1
  then show ?case by simp
next
  case (2 seg)
  then show ?case by (cases ys) simp_all
next
  case (3 seg v va)
  then show ?case by simp
qed

lemma join_slash_prefix: "prefix xs ys \<Longrightarrow> prefix (join_slash xs) (join_slash ys)"
proof -
  assume "prefix xs ys"
  then obtain zs where ys: "ys = xs @ zs"
    by (auto simp add: prefix_def)
  show ?thesis
  proof (cases "xs = [] \<or> zs = []")
    case True
    with ys show ?thesis by auto
  next
    case False
    with ys show ?thesis by (simp add: join_slash_append)
  qed
qed

lemma within_is_accepted:
  assumes "rp base = Inr realBaseDir"
      and "path_resolve base (JStr p) = Inr resolved"
      and "rp resolved = Inr realResolvedPath"
      and "canonical realBaseDir" and "canonical realResolvedPath"
      and "within_directory realBaseDir realResolvedPath"
  shows "isValidPartialPath base rp (JStr p)"
proof -
  have "prefix (''/'' @ join_slash (segments realBaseDir))
               (''/'' @ join_slash (segments realResolvedPath))"
    using assms(6) by (simp add: within_directory_def join_slash_prefix)
  moreover have "realBaseDir = ''/'' @ join_slash (segments realBaseDir)"
    and "realResolvedPath = ''/'' @ join_slash (segments realResolvedPath)"
    using assms(4,5) by (simp_all only: canonical_def)
  ultimately have "prefix realBaseDir realResolvedPath"
    by metis
  then show ?thesis
    using assms(1-3) by (simp add: isValidPartialPath_def isValidPartialPath_try_def)
qed

section \<open>Pull and retry\<close>

text \<open>The condition of the \<open>catch\<close>, spelled out.\<close>

lemma image_not_found_iff:
  "image_not_found err = Inr True \<longleftrightarrow>
     statusCode err = JNum 404 \<and> truthy (json err)
     \<and> (\<exists>m. get_field (json err) ''message'' = Inr m
              \<and> includes_js m ''No such image'' = Inr True)"
  by (auto simp add: image_not_found_def split: sum.splits)

text \<open>A job never takes back a pull it has asked for, and the retry asks for one.\<close>

lemma pulls_mono:
  "runDockerCommand fuel docker n jobParams w = Some (r, w') \<Longrightarrow> pulls w \<le> pulls w'"
proof (induction fuel arbitrary: n jobParams w)
  case 0
  then show ?case by simp
next
  case (Suc fuel)
  show ?case
  proof (cases "get_field jobParams ''programDirectory''")
    case (Inl thrown)
    with Suc.prems show ?thesis by simp
  next
    case (Inr dir)
    let ?cfg = "\<lparr>bashStartUpCmd = startup_command, programDirectory = dir\<rparr>"
    obtain r1 w1 where t: "runDockerCommand_try docker n ?cfg w = (r1, w1)"
      by (cases "runDockerCommand_try docker n ?cfg w")
    then have eq: "pulls w1 = pulls w"
      using try_counts by blast
    let ?w2 = "call (PullImage puppeteer_image) w1"
    show ?thesis
    proof (cases "\<exists>err. r1 = Thrown err \<and> image_not_found err = Inr True
                    \<and> pull_reply (docker n) = PullFinished None")
      case True
      then have "runDockerCommand fuel docker (Suc n) (job_config_object ?cfg) ?w2 = Some (r, w')"
        using Suc.prems Inr t by (auto simp add: Let_def)
      then have "pulls ?w2 \<le> pulls w'"
        by (rule Suc.IH)
      with eq show ?thesis by simp
    next
      case False
      then have "w' = w1 \<or> w' = ?w2"
        using Suc.prems Inr t
        by (auto simp add: Let_def split: outcome.splits sum.splits bool.splits
              pull_reply.splits option.splits)
      with eq show ?thesis by auto
    qed
  qed
qed

lemma handle_pulls:
  assumes "handleImageNotFoundThenRetry fuel docker n jobParams w = Some (r, w')"
  shows "pulls w < pulls w'"
proof (cases "pull_reply (docker n) = PullFinished None")
  case True
  with assms
  have "runDockerCommand fuel docker (Suc n) jobParams (call (PullImage puppeteer_image) w) =
          Some (r, w')"
    by (simp add: Let_def)
  then have "pulls (call (PullImage puppeteer_image) w) \<le> pulls w'"
    by (rule pulls_mono)
  then show ?thesis by simp
next
  case False
  with assms have "w' = call (PullImage puppeteer_image) w"
    by (auto simp add: Let_def split: pull_reply.splits option.splits)
  then show ?thesis by simp
qed

text \<open>A run that fails for a missing image, once the pull has finished, is followed by
  the next run, on the same directory.\<close>

lemma absent_run_retries:
  assumes "get_field jobParams ''programDirectory'' = Inr dir"
      and "create_reply (docker n) = Thrown err"
      and "image_not_found err = Inr True"
      and "pull_reply (docker n) = PullFinished None"
  shows "runDockerCommand (Suc m) docker n jobParams w =
         runDockerCommand m docker (Suc n)
           (job_config_object \<lparr>bashStartUpCmd = startup_command, programDirectory = dir\<rparr>)
           (call (PullImage puppeteer_image)
              (snd (createDockerContainer docker n
                 \<lparr>bashStartUpCmd = startup_command, programDirectory = dir\<rparr> w)))"
  using assms by (simp add: try_create_fails Let_def)

lemma retry_unrolls:
  assumes "get_field jobParams ''programDirectory'' = Inr dir"
      and "\<forall>i<k. absent_then_pulled docker (n + i)"
  shows "\<exists>jobParams' w'. get_field jobParams' ''programDirectory'' = Inr dir
           \<and> runDockerCommand (k + Suc fuel) docker n jobParams w =
               runDockerCommand (Suc fuel) docker (n + k) jobParams' w'
           \<and> pulls w' = pulls w + k \<and> creates w' = creates w + k"
  using assms
proof (induction k arbitrary: n jobParams w)
  case 0
  then show ?case
    by (intro exI [of _ jobParams] exI [of _ w]) simp
next
  case (Suc k)
  let ?cfg = "\<lparr>bashStartUpCmd = startup_command, programDirectory = dir\<rparr>"
  have "absent_then_pulled docker n"
    using Suc.prems(2) [rule_format, of 0] by simp
  then obtain err where err: "create_reply (docker n) = Thrown err"
      "image_not_found err = Inr True" "pull_reply (docker n) = PullFinished None"
    by (auto simp add: absent_then_pulled_def split: outcome.splits)
  let ?w1 = "snd (createDockerContainer docker n ?cfg w)"
  let ?w2 = "call (PullImage puppeteer_image) ?w1"
  have step: "runDockerCommand (Suc k + Suc fuel) docker n jobParams w =
        runDockerCommand (k + Suc fuel) docker (Suc n) (job_config_object ?cfg) ?w2"
    using absent_run_retries
      [where docker = docker and n = n and m = "k + Suc fuel" and w = w, OF Suc.prems(1) err]
    by simp
  have rest: "\<forall>i<k. absent_then_pulled docker (Suc n + i)"
    using Suc.prems(2) [rule_format, of "Suc i" for i] by simp
  have "get_field (job_config_object ?cfg) ''programDirectory'' = Inr dir"
    by simp
  from Suc.IH [OF this rest, of ?w2]
  obtain jobParams' w' where ih:
    "get_field jobParams' ''programDirectory'' = Inr dir"
    "runDockerCommand (k + Suc fuel) docker (Suc n) (job_config_object ?cfg) ?w2 =
       runDockerCommand (Suc fuel) docker (Suc n + k) jobParams' w'"
    "pulls w' = pulls ?w2 + k" "creates w' = creates ?w2 + k"
    by blast
  have "runDockerCommand (Suc k + Suc fuel) docker n jobParams w =
        runDockerCommand (Suc fuel) docker (n + Suc k) jobParams' w'"
    using step ih(2) by (simp del: runDockerCommand.simps)
  moreover have "pulls w' = pulls w + Suc k" and "creates w' = creates w + Suc k"
    using ih(3,4) by (simp_all add: createDockerContainer_def)
  ultimately show ?case
    using ih(1) by blast
qed

text \<open>When every run fails for a missing image and every pull finishes without error, no
  amount of fuel lets the job settle: it pulls and runs for ever.\<close>

lemma always_absent_never_settles:
  assumes "get_field jobParams ''programDirectory'' = Inr dir"
      and "\<forall>i. absent_then_pulled docker i"
  shows "runDockerCommand fuel docker n jobParams w = None"
  using assms(1)
proof (induction fuel arbitrary: n jobParams w)
  case 0
  then show ?case by simp
next
  case (Suc fuel)
  let ?cfg = "\<lparr>bashStartUpCmd = startup_command, programDirectory = dir\<rparr>"
  have "absent_then_pulled docker n"
    using assms(2) by simp
  then obtain err where err: "create_reply (docker n) = Thrown err"
      "image_not_found err = Inr True" "pull_reply (docker n) = PullFinished None"
    by (auto simp add: absent_then_pulled_def split: outcome.splits)
  have "runDockerCommand (Suc fuel) docker n jobParams w =
        runDockerCommand fuel docker (Suc n) (job_config_object ?cfg)
          (call (PullImage puppeteer_image) (snd (createDockerContainer docker n ?cfg w)))"
    using absent_run_retries
      [where docker = docker and n = n and m = fuel and w = w, OF Suc.prems err] .
  also have "\<dots> = None"
    by (rule Suc.IH) simp
  finally show ?case .
qed

text \<open>
  C2, as stated, fails: with the image reported missing on the first run and again on
  the retried run, the job pulls a second time and runs a third time.
\<close>

theorem second_absence_pulls_again:
  "startScrapperJob 3 ''/srv/scripts'' demo_realpath twice_absent_engine demo_params empty_world =
   Some (Returned (Response 200 (JStr ''done'')),
         \<lparr>calls = [demo_create, PullImage puppeteer_image,
                   demo_create, PullImage puppeteer_image,
                   demo_create, StartContainer 2, Attach 2 True False, Attach 2 False True,
                   WaitContainer 2],
          host_stderr = ''warn''\<rparr>)"
  by (simp add: startScrapperJob_def demo_valid)
     (simp add: demo_defs stage_defs twice_absent_engine_def image_not_found_def
        job_config_object_def eval_nat_numeral)

text \<open>
  C2, amended. The code keeps no count of retries: each run that fails for a missing
  image and whose pull finishes without error is followed by another run. A job whose
  first \<open>k\<close> runs fail so, and whose next run returns \<open>out\<close>, returns \<open>out\<close> after
  \<open>k\<close> pulls and \<open>k + 1\<close> container creations (any fuel above \<open>k\<close> suffices).
\<close>

theorem each_absent_run_pulls_again:
  assumes "get_field jobParams ''programDirectory'' = Inr dir"
      and "\<forall>i<k. absent_then_pulled docker i"
      and "fst (runDockerCommand_try docker k
             \<lparr>bashStartUpCmd = startup_command, programDirectory = dir\<rparr> w) = Returned out"
  shows "\<exists>w'. runDockerCommand (k + Suc fuel) docker 0 jobParams w = Some (Returned out, w')
           \<and> pulls w' = pulls w + k \<and> creates w' = creates w + Suc k"
proof -
  let ?cfg = "\<lparr>bashStartUpCmd = startup_command, programDirectory = dir\<rparr>"
  from retry_unrolls [of jobParams dir k docker 0 fuel w] assms(1,2)
  obtain jobParams' w1 where u:
    "get_field jobParams' ''programDirectory'' = Inr dir"
    "runDockerCommand (k + Suc fuel) docker 0 jobParams w =
       runDockerCommand (Suc fuel) docker k jobParams' w1"
    "pulls w1 = pulls w + k" "creates w1 = creates w + k"
    by auto
  have "fst (runDockerCommand_try docker k ?cfg w1) = Returned out"
    using assms(3) try_outcome_any_world [of docker k ?cfg w1 w] by simp
  then obtain w2 where t: "runDockerCommand_try docker k ?cfg w1 = (Returned out, w2)"
    by (cases "runDockerCommand_try docker k ?cfg w1") simp
  then have "pulls w2 = pulls w1 \<and> creates w2 = Suc (creates w1)"
    by (rule try_counts)
  moreover have "runDockerCommand (Suc fuel) docker k jobParams' w1 = Some (Returned out, w2)"
    using u(1) t by simp
  then have "runDockerCommand (k + Suc fuel) docker 0 jobParams w = Some (Returned out, w2)"
    unfolding u(2) .
  ultimately show ?thesis
    using u(3,4) by (intro exI [of _ w2]) (simp del: runDockerCommand.simps)
qed

theorem each_absent_run_pulls_again_witness:
  "get_field demo_params ''programDirectory'' = Inr (JStr ''job1'')
   \<and> absent_then_pulled twice_absent_engine 0
   \<and> absent_then_pulled twice_absent_engine 1
   \<and> fst (runDockerCommand_try twice_absent_engine 2
        \<lparr>bashStartUpCmd = startup_command, programDirectory = JStr ''job1''\<rparr> empty_world) =
      Returned (JStr ''done'')
   \<and> (\<exists>w'. runDockerCommand 3 twice_absent_engine 0 demo_params empty_world =
              Some (Returned (JStr ''done''), w')
         \<and> pulls w' = 2 \<and> creates w' = 3)"
proof -
  have dir: "get_field demo_params ''programDirectory'' = Inr (JStr ''job1'')"
    by (simp add: demo_params_def)
  have a0: "absent_then_pulled twice_absent_engine 0"
    and a1: "absent_then_pulled twice_absent_engine 1"
    by (simp_all add: absent_then_pulled_def twice_absent_engine_def quiet_run_def
          no_such_image_def image_not_found_def)
  have "i = 0 \<or> i = 1" if "i < 2" for i :: nat
    using that by auto
  with a0 a1 have absent: "\<forall>i<2. absent_then_pulled twice_absent_engine i"
    by blast
  have last: "fst (runDockerCommand_try twice_absent_engine 2
        \<lparr>bashStartUpCmd = startup_command, programDirectory = JStr ''job1''\<rparr> empty_world) =
      Returned (JStr ''done'')"
    by (simp add: stage_defs twice_absent_engine_def quiet_run_def)
  have "pulls empty_world = 0" and "creates empty_world = 0"
    by (simp_all add: pulls_def creates_def empty_world_def)
  with each_absent_run_pulls_again [OF dir absent last, of 0]
  have "\<exists>w'. runDockerCommand 3 twice_absent_engine 0 demo_params empty_world =
              Some (Returned (JStr ''done''), w')
         \<and> pulls w' = 2 \<and> creates w' = 3"
    by (simp del: runDockerCommand.simps add: eval_nat_numeral)
  with dir a0 a1 last show ?thesis
    by blast
qed

text \<open>
  C3, as stated, fails: the \<open>catch\<close> covers all four stages and looks at the error
  only. Here the container is created, starting it fails with an error of the
  missing-image shape, and the job pulls the image and runs again.
\<close>

theorem start_failure_triggers_pull:
  "create_reply (start_absent_engine 0) = Returned ()
   \<and> start_reply (start_absent_engine 0) = Thrown no_such_image
   \<and> startScrapperJob 2 ''/srv/scripts'' demo_realpath start_absent_engine demo_params
        empty_world =
      Some (Returned (Response 200 (JStr ''done'')),
            \<lparr>calls = [demo_create, StartContainer 0, PullImage puppeteer_image,
                      demo_create, StartContainer 1, Attach 1 True False, Attach 1 False True,
                      WaitContainer 1],
             host_stderr = ''warn''\<rparr>)"
  by (simp add: startScrapperJob_def demo_valid)
     (simp add: demo_defs stage_defs start_absent_engine_def image_not_found_def
        job_config_object_def eval_nat_numeral)

text \<open>
  C3, amended. Whichever stage of a run throws, the error alone decides: when its
  \<open>statusCode\<close> is 404 and the \<open>message\<close> of its \<open>json\<close> includes \<open>No such image\<close>, the
  run continues in \<open>handleImageNotFoundThenRetry\<close>, and whatever the job then yields, a
  pull has been asked for; on every other error the run throws at once, with no pull.
\<close>

theorem pull_decided_by_error_shape:
  assumes "get_field jobParams ''programDirectory'' = Inr dir"
      and "runDockerCommand_try docker n
             \<lparr>bashStartUpCmd = startup_command, programDirectory = dir\<rparr> w = (Thrown err, w1)"
  shows "(image_not_found err = Inr True \<longrightarrow>
            runDockerCommand (Suc fuel) docker n jobParams w =
              handleImageNotFoundThenRetry fuel docker n
                (job_config_object \<lparr>bashStartUpCmd = startup_command, programDirectory = dir\<rparr>) w1
            \<and> (\<forall>r w'. runDockerCommand (Suc fuel) docker n jobParams w = Some (r, w')
                  \<longrightarrow> pulls w < pulls w'))
       \<and> (image_not_found err \<noteq> Inr True \<longrightarrow>
            (\<exists>thrown. runDockerCommand (Suc fuel) docker n jobParams w = Some (Thrown thrown, w1))
            \<and> pulls w1 = pulls w)"
proof -
  have eq: "pulls w1 = pulls w"
    using try_counts [OF assms(2)] by simp
  show ?thesis
  proof (cases "image_not_found err = Inr True")
    case True
    then have run: "runDockerCommand (Suc fuel) docker n jobParams w =
              handleImageNotFoundThenRetry fuel docker n
                (job_config_object \<lparr>bashStartUpCmd = startup_command, programDirectory = dir\<rparr>) w1"
      using assms by simp
    have "pulls w < pulls w'"
      if "runDockerCommand (Suc fuel) docker n jobParams w = Some (r, w')" for r w'
      using that handle_pulls [of fuel docker n _ w1 r w'] eq unfolding run by simp
    with True run show ?thesis by blast
  next
    case False
    then have "\<exists>thrown. runDockerCommand (Suc fuel) docker n jobParams w = Some (Thrown thrown, w1)"
      using assms by (cases "image_not_found err") (auto split: bool.splits)
    with False eq show ?thesis by blast
  qed
qed

theorem pull_decided_by_error_shape_witness:
  "get_field demo_params ''programDirectory'' = Inr (JStr ''job1'')
   \<and> runDockerCommand_try start_absent_engine 0
        \<lparr>bashStartUpCmd = startup_command, programDirectory = JStr ''job1''\<rparr> empty_world =
      (Thrown no_such_image, \<lparr>calls = [demo_create, StartContainer 0], host_stderr = []\<rparr>)
   \<and> image_not_found no_such_image = Inr True
   \<and> runDockerCommand 2 start_absent_engine 0 demo_params empty_world =
      Some (Returned (JStr ''done''),
            \<lparr>calls = [demo_create, StartContainer 0, PullImage puppeteer_image,
                      demo_create, StartContainer 1, Attach 1 True False, Attach 1 False True,
                      WaitContainer 1],
             host_stderr = ''warn''\<rparr>)
   \<and> pulls empty_world <
      pulls \<lparr>calls = [demo_create, StartContainer 0, PullImage puppeteer_image,
                      demo_create, StartContainer 1, Attach 1 True False, Attach 1 False True,
                      WaitContainer 1],
             host_stderr = ''warn''\<rparr>
   \<and> runDockerCommand_try (exit_engine 1) 0
        \<lparr>bashStartUpCmd = startup_command, programDirectory = JStr ''job1''\<rparr> empty_world =
      (Thrown (Error ''Puppeteer script execution failed with exit code 1''),
       \<lparr>calls = [demo_create, StartContainer 0, Attach 0 True False, Attach 0 False True,
                 WaitContainer 0],
        host_stderr = ''warn''\<rparr>)
   \<and> image_not_found (Error ''Puppeteer script execution failed with exit code 1'') = Inr False
   \<and> (\<exists>thrown. runDockerCommand 2 (exit_engine 1) 0 demo_params empty_world =
        Some (Thrown thrown,
              \<lparr>calls = [demo_create, StartContainer 0, Attach 0 True False, Attach 0 False True,
                        WaitContainer 0],
               host_stderr = ''warn''\<rparr>))
   \<and> pulls \<lparr>calls = [demo_create, StartContainer 0, Attach 0 True False, Attach 0 False True,
                      WaitContainer 0],
             host_stderr = ''warn''\<rparr> = pulls empty_world"
proof -
  let ?cfg = "\<lparr>bashStartUpCmd = startup_command, programDirectory = JStr ''job1''\<rparr>"
  let ?w1 = "\<lparr>calls = [demo_create, StartContainer 0], host_stderr = []\<rparr>"
  let ?wa = "\<lparr>calls = [demo_create, StartContainer 0, PullImage puppeteer_image,
                      demo_create, StartContainer 1, Attach 1 True False, Attach 1 False True,
                      WaitContainer 1],
             host_stderr = ''warn''\<rparr>"
  let ?wb = "\<lparr>calls = [demo_create, StartContainer 0, Attach 0 True False, Attach 0 False True,
                      WaitContainer 0],
             host_stderr = ''warn''\<rparr>"
  let ?exit = "Error ''Puppeteer script execution failed with exit code 1''"
  have dir: "get_field demo_params ''programDirectory'' = Inr (JStr ''job1'')"
    by (simp add: demo_params_def)
  have t1: "runDockerCommand_try start_absent_engine 0 ?cfg empty_world = (Thrown no_such_image, ?w1)"
    by (simp add: demo_defs stage_defs start_absent_engine_def)
  have shape: "image_not_found no_such_image = Inr True"
    by (simp add: image_not_found_def no_such_image_def)
  have run: "runDockerCommand 2 start_absent_engine 0 demo_params empty_world =
      Some (Returned (JStr ''done''), ?wa)"
    by (simp add: demo_defs stage_defs start_absent_engine_def image_not_found_def
          job_config_object_def eval_nat_numeral)
  have "show_int 1 = ''1''"
    by (simp add: show_int_def show_nat_small digit_char_def)
  then have t2: "runDockerCommand_try (exit_engine 1) 0 ?cfg empty_world = (Thrown ?exit, ?wb)"
    by (simp add: demo_defs stage_defs exit_engine_def)
  have other: "image_not_found ?exit = Inr False"
    by (simp add: image_not_found_def Error_def)
  have two: "Suc (Suc 0) = 2"
    by simp
  from pull_decided_by_error_shape [OF dir t1, of 1] shape run
  have more: "pulls empty_world < pulls ?wa"
    unfolding One_nat_def two by blast
  from pull_decided_by_error_shape [OF dir t2, of 1] other
  have "(\<exists>thrown. runDockerCommand 2 (exit_engine 1) 0 demo_params empty_world =
           Some (Thrown thrown, ?wb)) \<and> pulls ?wb = pulls empty_world"
    unfolding One_nat_def two by simp
  with dir t1 shape run more t2 other show ?thesis
    by blast
qed

end
